theory Spec2Isabelle
  imports Complex_Main
begin

section \<open>The polygon annotation front end\<close>

text \<open>
  The repository holds two copies of the front end. The current one is the pair
  \<^verbatim>\<open>App.tsx\<close> / \<^verbatim>\<open>App.view.tsx\<close> (the container component with its React state and
  handlers, and the view that wires the handlers to buttons); the older one is the single
  file \<^verbatim>\<open>polygon-interface/src/App.tsx\<close>, which has no \<^verbatim>\<open>loading\<close> flag, no
  confirmation before a delete and no special case for a duplicate name. The handlers
  \<^verbatim>\<open>handleCanvasClick\<close>, \<^verbatim>\<open>startDrawing\<close>, \<^verbatim>\<open>cancelDrawing\<close> and the renderer
  \<^verbatim>\<open>drawCanvas\<close> are the same text in both. The current copy is modelled under the
  source's names; the functions of the older copy that differ carry the prefix
  \<open>legacy_\<close>.

  A JavaScript \<^verbatim>\<open>number\<close> is an IEEE double. Coordinates are modelled as \<^typ>\<open>real\<close>
  and polygon ids as \<^typ>\<open>int\<close>: nothing below depends on rounding.
\<close>

subsection \<open>Data\<close>

text \<open>\<^verbatim>\<open>number[]\<close>: a point is an array of numbers, \<^verbatim>\<open>[x, y]\<close> when the click handler
  builds it.\<close>

type_synonym point = "real list"

text \<open>\<^verbatim>\<open>type Polygon = { id: number; name: string; points: number[][] }\<close>. The
  collection comes from the server and nothing checks it against that type. The renderer
  and the list view both guard against a polygon without \<^verbatim>\<open>points\<close>
  (\<^verbatim>\<open>polygon.points && ...\<close>, \<^verbatim>\<open>polygon.points?.length\<close>), so the field is optional
  here: \<open>None\<close> is a missing, \<^verbatim>\<open>undefined\<close> or \<^verbatim>\<open>null\<close> field. An entry of the
  \<^verbatim>\<open>points\<close> array is an array of numbers or \<^verbatim>\<open>null\<close> (\<open>None\<close>): the renderer reads
  \<^verbatim>\<open>points[i][0]\<close> unguarded, which throws on \<^verbatim>\<open>null\<close>. Left out of the model: a
  collection that is not an array of objects (the view cannot render it, so the renderer
  never sees it), a \<^verbatim>\<open>points\<close> value that is neither missing nor an array, and entries
  that are strings or objects.\<close>

record polygon =
  polygon_id :: int
  name :: string
  points :: "point option list option"

text \<open>The seven \<^verbatim>\<open>useState\<close> cells of \<^verbatim>\<open>App\<close>.\<close>

record app_state =
  polygons :: "polygon list"
  currentPolygon :: "point list"
  isDrawing :: bool
  newPolygonName :: string
  showSaveButton :: bool
  showNameDialog :: bool
  loading :: bool

definition initial_state :: app_state where
  "initial_state =
     \<lparr>polygons = [], currentPolygon = [], isDrawing = False, newPolygonName = [],
      showSaveButton = False, showNameDialog = False, loading = False\<rparr>"

subsection \<open>The remote store as seen by \<^verbatim>\<open>fetch\<close>\<close>

text \<open>The requests the front end sends. Each handler returns, next to the new state, the
  list of requests it has sent, in order.\<close>

datatype request =
    GetPolygons
  | PostPolygon string "point list"
  | DeletePolygon int

text \<open>What \<^verbatim>\<open>await fetch(...)\<close> gives: the promise rejects (no connection), or it
  resolves to a response with its \<^verbatim>\<open>ok\<close> flag. The second field of a response is what
  \<^verbatim>\<open>response.json()\<close> resolves to; \<open>None\<close> when the body is not JSON and
  \<^verbatim>\<open>response.json()\<close> rejects.\<close>

datatype 'b fetch_result =
    FetchRejected
  | FetchResponse bool "'b option"

text \<open>A parsed JSON body. \<^verbatim>\<open>createPolygon\<close> hands the parsed body of the POST response
  to its caller untyped.\<close>

datatype json =
    JNull
  | JBool bool
  | JNumber real
  | JString string
  | JArray "json list"
  | JObject "(string \<times> json) list"

text \<open>The outcome of awaiting a promise.\<close>

datatype 'a settled =
    Fulfilled 'a
  | Rejected

text \<open>\<^verbatim>\<open>res?.error\<close>: \<^verbatim>\<open>undefined\<close> (here \<open>None\<close>) for \<^verbatim>\<open>null\<close>, for a primitive,
  for an array and for an object without the key. \<^verbatim>\<open>JSON.parse\<close> keeps the last of
  several equal keys.\<close>

fun error_field :: "json \<Rightarrow> json option" where
  "error_field (JObject kvs) = map_of (rev kvs) ''error''"
| "error_field j = None"

text \<open>\<^verbatim>\<open>res?.error === 'Polygon with this name already exists'\<close>\<close>

definition duplicate_name_signal :: "json \<Rightarrow> bool" where
  "duplicate_name_signal res =
     (error_field res = Some (JString ''Polygon with this name already exists''))"

subsection \<open>\<^verbatim>\<open>String.prototype.trim\<close>\<close>

text \<open>White space and line terminators of ECMAScript among the code units below 256
  (a \<^typ>\<open>char\<close> is one byte): tab, line feed, vertical tab, form feed, carriage return,
  space and no-break space.\<close>

definition js_whitespace :: "char \<Rightarrow> bool" where
  "js_whitespace c =
     (c \<in> set [CHR 0x09, CHR 0x0A, CHR 0x0B, CHR 0x0C, CHR 0x0D, CHR 0x20, CHR 0xA0])"

definition trim :: "string \<Rightarrow> string" where
  "trim s = rev (dropWhile js_whitespace (rev (dropWhile js_whitespace s)))"

subsection \<open>The sync functions of \<^verbatim>\<open>App.tsx\<close>\<close>

text \<open>
  Each of the three functions is \<^verbatim>\<open>async\<close>: it sets \<^verbatim>\<open>loading\<close>, then suspends
  (\<^verbatim>\<open>await delay(5000)\<close>, \<^verbatim>\<open>await fetch(...)\<close>) and continues when the response is
  there. The state while it is suspended is \<open>f_begin s\<close>; the rest of the body is
  \<open>f_settle\<close>, a function of what the remote store answered. Every update after the
  suspension writes a constant or the response into a state cell, so \<open>f_settle\<close> is a
  function of the state it finds. \<^verbatim>\<open>delay\<close> (\<^verbatim>\<open>App.utils\<close>) only waits.
  Notifications (\<^verbatim>\<open>toast\<close>, \<^verbatim>\<open>console.error\<close>) change no state and are left out.
\<close>

definition fetchPolygons_begin :: "app_state \<Rightarrow> app_state" where
  "fetchPolygons_begin s = s\<lparr>loading := True\<rparr>"

text \<open>\<^verbatim>\<open>const data = await response.json()\<close> stands inside the \<^verbatim>\<open>try\<close>: a body that
  does not parse ends in the \<^verbatim>\<open>catch\<close> branch.\<close>

fun fetchPolygons_settle :: "polygon list fetch_result \<Rightarrow> app_state \<Rightarrow> app_state" where
  "fetchPolygons_settle (FetchResponse True (Some data)) s =
     s\<lparr>polygons := data, loading := False\<rparr>"
| "fetchPolygons_settle (FetchResponse True None) s = s\<lparr>loading := False\<rparr>"
| "fetchPolygons_settle (FetchResponse False body) s = s\<lparr>loading := False\<rparr>"
| "fetchPolygons_settle FetchRejected s = s\<lparr>loading := False\<rparr>"

definition fetchPolygons ::
  "polygon list fetch_result \<Rightarrow> app_state \<Rightarrow> app_state \<times> request list" where
  "fetchPolygons g s = (fetchPolygons_settle g (fetchPolygons_begin s), [GetPolygons])"

definition createPolygon_begin :: "app_state \<Rightarrow> app_state" where
  "createPolygon_begin s = s\<lparr>loading := True\<rparr>"

text \<open>
  \<^verbatim>\<open>createPolygon\<close> after the POST has settled; \<open>g\<close> is the answer to the follow-up
  \<^verbatim>\<open>fetchPolygons()\<close>, read only when the POST response is \<^verbatim>\<open>ok\<close>. The function ends
  with \<^verbatim>\<open>return response.json()\<close>, not awaited: when the body does not parse the
  promise returned by \<^verbatim>\<open>createPolygon\<close> rejects, and the \<^verbatim>\<open>catch\<close> branch (which
  returns \<^verbatim>\<open>null\<close>) is not taken. The \<^verbatim>\<open>catch\<close> branch handles a rejected
  \<^verbatim>\<open>fetch\<close>.
\<close>

fun createPolygon_settle ::
  "json fetch_result \<Rightarrow> polygon list fetch_result \<Rightarrow> app_state
     \<Rightarrow> app_state \<times> request list \<times> json settled" where
  "createPolygon_settle FetchRejected g s = (s\<lparr>loading := False\<rparr>, [], Fulfilled JNull)"
| "createPolygon_settle (FetchResponse ok body) g s =
     (let (s1, reqs) = (if ok then fetchPolygons g s else (s, [])) in
        (s1\<lparr>loading := False\<rparr>, reqs,
         case body of Some j \<Rightarrow> Fulfilled j | None \<Rightarrow> Rejected))"

definition createPolygon ::
  "string \<Rightarrow> point list \<Rightarrow> json fetch_result \<Rightarrow> polygon list fetch_result \<Rightarrow> app_state
     \<Rightarrow> app_state \<times> request list \<times> json settled" where
  "createPolygon nm pts r g s =
     (let (s1, reqs, res) = createPolygon_settle r g (createPolygon_begin s) in
        (s1, PostPolygon nm pts # reqs, res))"

definition deletePolygon_begin :: "app_state \<Rightarrow> app_state" where
  "deletePolygon_begin s = s\<lparr>loading := True\<rparr>"

text \<open>The body of the DELETE response is never read.\<close>

fun deletePolygon_settle ::
  "'b fetch_result \<Rightarrow> polygon list fetch_result \<Rightarrow> app_state \<Rightarrow> app_state \<times> request list" where
  "deletePolygon_settle FetchRejected g s = (s\<lparr>loading := False\<rparr>, [])"
| "deletePolygon_settle (FetchResponse ok body) g s =
     (let (s1, reqs) = (if ok then fetchPolygons g s else (s, [])) in
        (s1\<lparr>loading := False\<rparr>, reqs))"

definition deletePolygon ::
  "int \<Rightarrow> 'b fetch_result \<Rightarrow> polygon list fetch_result \<Rightarrow> app_state
     \<Rightarrow> app_state \<times> request list" where
  "deletePolygon i r g s =
     (let (s1, reqs) = deletePolygon_settle r g (deletePolygon_begin s) in
        (s1, DeletePolygon i # reqs))"

subsection \<open>The interaction handlers of \<^verbatim>\<open>App.tsx\<close>\<close>

text \<open>The canvas element behind \<^verbatim>\<open>canvasRef\<close>, as far as the code reads it: its
  size, whether \<^verbatim>\<open>getContext('2d')\<close> gives a context, and the origin of
  \<^verbatim>\<open>getBoundingClientRect()\<close>. \<open>None\<close> for the reference is
  \<^verbatim>\<open>canvasRef.current === null\<close>. Of the click event the handler reads the pointer
  position.\<close>

record canvas_element =
  width :: real
  height :: real
  context2d :: bool
  rect_left :: real
  rect_top :: real

record mouse_event =
  clientX :: real
  clientY :: real

text \<open>The test \<^verbatim>\<open>currentPolygon.length > 1\<close> reads the draft as it is before the new
  point is appended.\<close>

definition handleCanvasClick ::
  "canvas_element option \<Rightarrow> mouse_event \<Rightarrow> app_state \<Rightarrow> app_state" where
  "handleCanvasClick canvasRef e s =
     (if \<not> isDrawing s then s
      else case canvasRef of
        None \<Rightarrow> s
      | Some canvas \<Rightarrow>
          (let x = clientX e - rect_left canvas;
               y = clientY e - rect_top canvas;
               s1 = (if length (currentPolygon s) > 1 then s\<lparr>showSaveButton := True\<rparr> else s)
           in s1\<lparr>currentPolygon := currentPolygon s1 @ [[x, y]]\<rparr>))"

definition startDrawing :: "app_state \<Rightarrow> app_state" where
  "startDrawing s = s\<lparr>isDrawing := True, currentPolygon := []\<rparr>"

definition cancelDrawing :: "app_state \<Rightarrow> app_state" where
  "cancelDrawing s = s\<lparr>isDrawing := False, currentPolygon := []\<rparr>"

text \<open>
  \<^verbatim>\<open>handleCreatePolygon\<close>. A non-empty string is truthy, so the guard is
  \<open>trim name \<noteq> []\<close>. When the promise of \<^verbatim>\<open>createPolygon\<close> rejects, the \<^verbatim>\<open>await\<close>
  throws and the rest of the handler does not run.
\<close>

definition handleCreatePolygon ::
  "json fetch_result \<Rightarrow> polygon list fetch_result \<Rightarrow> app_state \<Rightarrow> app_state \<times> request list" where
  "handleCreatePolygon r g s =
     (if trim (newPolygonName s) \<noteq> [] \<and> length (currentPolygon s) > 2 then
        (case createPolygon (trim (newPolygonName s)) (currentPolygon s) r g s of
           (s1, reqs, Rejected) \<Rightarrow> (s1, reqs)
         | (s1, reqs, Fulfilled res) \<Rightarrow>
             if duplicate_name_signal res then (s1, reqs)
             else (s1\<lparr>isDrawing := False, currentPolygon := [], newPolygonName := [],
                      showNameDialog := False\<rparr>, reqs))
      else (s, []))"

text \<open>\<^verbatim>\<open>handleDeletePolygon\<close>; \<open>confirmed\<close> is what \<^verbatim>\<open>window.confirm\<close> returns.\<close>

definition handleDeletePolygon ::
  "bool \<Rightarrow> int \<Rightarrow> 'b fetch_result \<Rightarrow> polygon list fetch_result \<Rightarrow> app_state
     \<Rightarrow> app_state \<times> request list" where
  "handleDeletePolygon confirmed i r g s =
     (if confirmed then deletePolygon i r g s else (s, []))"

subsection \<open>The view: \<^verbatim>\<open>App.view.tsx\<close>\<close>

text \<open>
  The view decides which handler a user can reach. The button that starts a drawing is
  rendered when \<^verbatim>\<open>!props.isDrawing\<close>, the one that cancels it otherwise; every list
  entry carries a delete icon; the save button is rendered under
  \<^verbatim>\<open>props.showSaveButton && ...\<close> with the \<^verbatim>\<open>disabled\<close> attribute below; the two
  buttons of the naming dialog have \<^verbatim>\<open>disabled={props.loading}\<close>. The button that starts
  a drawing, the cancel button, the delete icons and the canvas have no \<^verbatim>\<open>disabled\<close>
  attribute.
\<close>

definition saveButton_rendered :: "app_state \<Rightarrow> bool" where
  "saveButton_rendered s = showSaveButton s"

definition saveButton_disabled :: "app_state \<Rightarrow> bool" where
  "saveButton_disabled s =
     (loading s \<or> \<not> isDrawing s \<or> length (currentPolygon s) < 3)"

definition dialogButton_disabled :: "app_state \<Rightarrow> bool" where
  "dialogButton_disabled s = loading s"

text \<open>What can happen to the mounted component. An event carries what its handler will
  get from outside: the canvas reference and the pointer position, the answer of
  \<^verbatim>\<open>window.confirm\<close>, the answers of the remote store. \<open>Mounted\<close> is the effect that
  fetches the collection on mount; \<open>DialogClose\<close> is the dialog's \<^verbatim>\<open>onClose\<close>.\<close>

datatype event =
    Mounted "polygon list fetch_result"
  | DrawNewPolygonClick
  | CancelClick
  | DeleteIconClick int bool "json fetch_result" "polygon list fetch_result"
  | CanvasClick "canvas_element option" mouse_event
  | SavePolygonClick
  | DialogClose
  | NameChange string
  | DialogCancelClick
  | DialogSaveClick "json fetch_result" "polygon list fetch_result"

text \<open>The handler the view wires to each event.\<close>

fun handler :: "event \<Rightarrow> app_state \<Rightarrow> app_state \<times> request list" where
  "handler (Mounted g) s = fetchPolygons g s"
| "handler DrawNewPolygonClick s = (startDrawing s, [])"
| "handler CancelClick s = (cancelDrawing s, [])"
| "handler (DeleteIconClick i confirmed r g) s = handleDeletePolygon confirmed i r g s"
| "handler (CanvasClick canvasRef e) s = (handleCanvasClick canvasRef e s, [])"
| "handler SavePolygonClick s = (s\<lparr>showNameDialog := True\<rparr>, [])"
| "handler DialogClose s = (s\<lparr>showNameDialog := False\<rparr>, [])"
| "handler (NameChange v) s = (s\<lparr>newPolygonName := v\<rparr>, [])"
| "handler DialogCancelClick s = (s\<lparr>showNameDialog := False\<rparr>, [])"
| "handler (DialogSaveClick r g) s = handleCreatePolygon r g s"

text \<open>Whether the element behind an event is rendered and not disabled.\<close>

fun available :: "event \<Rightarrow> app_state \<Rightarrow> bool" where
  "available (Mounted g) s = True"
| "available DrawNewPolygonClick s = (\<not> isDrawing s)"
| "available CancelClick s = isDrawing s"
| "available (DeleteIconClick i confirmed r g) s = (i \<in> set (map polygon_id (polygons s)))"
| "available (CanvasClick canvasRef e) s = True"
| "available SavePolygonClick s = (saveButton_rendered s \<and> \<not> saveButton_disabled s)"
| "available DialogClose s = showNameDialog s"
| "available (NameChange v) s = showNameDialog s"
| "available DialogCancelClick s = (showNameDialog s \<and> \<not> dialogButton_disabled s)"
| "available (DialogSaveClick r g) s = (showNameDialog s \<and> \<not> dialogButton_disabled s)"

definition dispatch :: "event \<Rightarrow> app_state \<Rightarrow> app_state \<times> request list" where
  "dispatch e s = (if available e s then handler e s else (s, []))"

text \<open>A sequence of events, each handled to its end before the next.\<close>

fun run :: "event list \<Rightarrow> app_state \<Rightarrow> app_state" where
  "run [] s = s"
| "run (e # es) s = run es (fst (dispatch e s))"

text \<open>The same with the handlers called directly, whatever the view shows.\<close>

fun run_handlers :: "event list \<Rightarrow> app_state \<Rightarrow> app_state" where
  "run_handlers [] s = s"
| "run_handlers (e # es) s = run_handlers es (fst (handler e s))"

text \<open>\<open>n\<close> clicks on the canvas, at the positions \<open>es\<close>.\<close>

fun clicks :: "canvas_element \<Rightarrow> mouse_event list \<Rightarrow> app_state \<Rightarrow> app_state" where
  "clicks canvas [] s = s"
| "clicks canvas (e # es) s = clicks canvas es (handleCanvasClick (Some canvas) e s)"

subsection \<open>The renderer: \<^verbatim>\<open>drawCanvas\<close>\<close>

text \<open>
  The renderer is modelled by the calls it makes on the 2D context, in order, and by
  whether it throws. An argument of a path call is \<open>None\<close> when the source passes
  \<^verbatim>\<open>undefined\<close> or \<^verbatim>\<open>NaN\<close> (a point array with fewer than two entries); the canvas
  ignores such a call. The template
  literals \<^verbatim>\<open>hsla(${index * 60}, 70%, 50%, 0.3)\<close> and \<^verbatim>\<open>hsl(${index * 60}, 70%, 40%)\<close>
  are kept as their components.
\<close>

type_synonym js_number = "real option"

datatype css_color =
    Hsla nat nat nat real
  | Hsl nat nat nat
  | CssLiteral string

datatype draw_cmd =
    ClearRect real real real real
  | DrawImage real real real real
  | BeginPath
  | MoveTo js_number js_number
  | LineTo js_number js_number
  | ClosePath
  | FillStyle css_color
  | Fill
  | StrokeStyle css_color
  | LineWidth real
  | Stroke
  | Font string
  | FillText string js_number js_number
  | Arc js_number js_number real real real


text \<open>
  What a stretch of the renderer has done when control leaves it: the calls made so far,
  and whether it ran to its end or threw. The calls made before a throw stay on the
  canvas. \<open>and_then a b\<close> is \<open>a\<close> followed by \<open>b\<close>: \<open>b\<close> runs only when \<open>a\<close> has
  completed.
\<close>

datatype outcome = Completed | TypeError

type_synonym drawn = "draw_cmd list \<times> outcome"

definition calls :: "draw_cmd list \<Rightarrow> drawn" where
  "calls cs = (cs, Completed)"

definition and_then :: "drawn \<Rightarrow> drawn \<Rightarrow> drawn" where
  "and_then a b =
     (case snd a of
        Completed \<Rightarrow> (fst a @ fst b, snd b)
      | TypeError \<Rightarrow> (fst a, TypeError))"

















subsection \<open>The older copy: \<^verbatim>\<open>polygon-interface/src/App.tsx\<close>\<close>

text \<open>The functions of the older copy that differ from the current one. It has no
  \<^verbatim>\<open>loading\<close> cell (the field stays as it is), \<^verbatim>\<open>createPolygon\<close> returns nothing,
  \<^verbatim>\<open>handleSavePolygon\<close> resets the draft after every call, and
  \<^verbatim>\<open>handleDeletePolygon\<close> asks for no confirmation.\<close>

fun legacy_fetchPolygons ::
  "polygon list fetch_result \<Rightarrow> app_state \<Rightarrow> app_state \<times> request list" where
  "legacy_fetchPolygons (FetchResponse True (Some data)) s = (s\<lparr>polygons := data\<rparr>, [GetPolygons])"
| "legacy_fetchPolygons g s = (s, [GetPolygons])"

fun legacy_createPolygon ::
  "string \<Rightarrow> point list \<Rightarrow> 'b fetch_result \<Rightarrow> polygon list fetch_result \<Rightarrow> app_state
     \<Rightarrow> app_state \<times> request list" where
  "legacy_createPolygon nm pts (FetchResponse True body) g s =
     (let (s1, reqs) = legacy_fetchPolygons g s in (s1, PostPolygon nm pts # reqs))"
| "legacy_createPolygon nm pts r g s = (s, [PostPolygon nm pts])"

fun legacy_deletePolygon ::
  "int \<Rightarrow> 'b fetch_result \<Rightarrow> polygon list fetch_result \<Rightarrow> app_state
     \<Rightarrow> app_state \<times> request list" where
  "legacy_deletePolygon i (FetchResponse True body) g s =
     (let (s1, reqs) = legacy_fetchPolygons g s in (s1, DeletePolygon i # reqs))"
| "legacy_deletePolygon i r g s = (s, [DeletePolygon i])"

definition legacy_handleSavePolygon ::
  "'b fetch_result \<Rightarrow> polygon list fetch_result \<Rightarrow> app_state \<Rightarrow> app_state \<times> request list" where
  "legacy_handleSavePolygon r g s =
     (if trim (newPolygonName s) \<noteq> [] \<and> length (currentPolygon s) > 2 then
        (let (s1, reqs) =
               legacy_createPolygon (trim (newPolygonName s)) (currentPolygon s) r g s in
           (s1\<lparr>currentPolygon := [], isDrawing := False, newPolygonName := [],
               showNameDialog := False\<rparr>, reqs))
      else (s, []))"

definition legacy_handleDeletePolygon ::
  "int \<Rightarrow> 'b fetch_result \<Rightarrow> polygon list fetch_result \<Rightarrow> app_state
     \<Rightarrow> app_state \<times> request list" where
  "legacy_handleDeletePolygon i r g s = legacy_deletePolygon i r g s"

definition legacy_saveButton_disabled :: "app_state \<Rightarrow> bool" where
  "legacy_saveButton_disabled s = (\<not> isDrawing s \<or> length (currentPolygon s) < 3)"

subsection \<open>Concrete inputs\<close>

text \<open>A canvas of the size the view gives it, a click at a client position, a draft of
  three points, and the state of a user who has drawn that draft, opened the naming
  dialog and typed a name.\<close>

definition example_canvas :: canvas_element where
  "example_canvas =
     \<lparr>width = 600, height = 400, context2d = True, rect_left = 8, rect_top = 8\<rparr>"

definition click_at :: "real \<Rightarrow> real \<Rightarrow> mouse_event" where
  "click_at x y = \<lparr>clientX = x, clientY = y\<rparr>"

text \<open>The point \<^verbatim>\<open>[x, y]\<close> that \<^verbatim>\<open>handleCanvasClick\<close> appends for a click.\<close>

definition click_point :: "canvas_element \<Rightarrow> mouse_event \<Rightarrow> point" where
  "click_point c e = [clientX e - rect_left c, clientY e - rect_top c]"

definition triangle :: "point list" where
  "triangle = [[0, 0], [10, 0], [10, 10]]"

definition naming_state :: app_state where
  "naming_state =
     \<lparr>polygons = [], currentPolygon = triangle, isDrawing = True, newPolygonName = ''Zone1'',
      showSaveButton = True, showNameDialog = True, loading = False\<rparr>"

text \<open>Saved polygons: one with three points, one without the \<^verbatim>\<open>points\<close> field, one with
  two points, and one whose \<^verbatim>\<open>points\<close> is \<^verbatim>\<open>[[0, 0], null, [1, 1]]\<close>.\<close>

definition zone1 :: polygon where
  "zone1 = \<lparr>polygon_id = 1, name = ''Zone1'', points = Some (map Some triangle)\<rparr>"




subsection \<open>Notions of the specification\<close>










text \<open>The two ways a confirmed save can leave the session: everything the user has entered
  is still there, or the machine is back in \<open>Idle\<close> with an empty draft, an empty name field
  and a closed dialog.\<close>

definition draft_kept :: "app_state \<Rightarrow> app_state \<Rightarrow> bool" where
  "draft_kept s s' =
     (currentPolygon s' = currentPolygon s \<and> newPolygonName s' = newPolygonName s
      \<and> isDrawing s' = isDrawing s \<and> showNameDialog s' = showNameDialog s)"

definition draft_reset :: "app_state \<Rightarrow> bool" where
  "draft_reset s' =
     (currentPolygon s' = [] \<and> newPolygonName s' = [] \<and> \<not> isDrawing s'
      \<and> \<not> showNameDialog s')"

section \<open>Properties\<close>

subsection \<open>Auxiliary facts\<close>

lemma trim_empty_iff: "trim s = [] \<longleftrightarrow> (\<forall>c \<in> set s. js_whitespace c)"
proof
  assume "trim s = []"
  then have all: "\<forall>x \<in> set (dropWhile js_whitespace s). js_whitespace x"
    by (simp add: trim_def)
  have "dropWhile js_whitespace s = []"
  proof (rule ccontr)
    assume ne: "dropWhile js_whitespace s \<noteq> []"
    then have "\<not> js_whitespace (hd (dropWhile js_whitespace s))"
      by (rule hd_dropWhile)
    moreover have "hd (dropWhile js_whitespace s) \<in> set (dropWhile js_whitespace s)"
      using ne by simp
    ultimately show False using all by blast
  qed
  then show "\<forall>c \<in> set s. js_whitespace c"
    by simp
next
  assume "\<forall>c \<in> set s. js_whitespace c"
  then have e: "dropWhile js_whitespace s = []"
    by simp
  show "trim s = []"
    unfolding trim_def e by simp
qed

lemma trim_Zone1: "trim ''Zone1'' = ''Zone1''"
  by (simp add: trim_def js_whitespace_def)

lemma trim_blanks: "trim ''  '' = []"
  by (simp add: trim_def js_whitespace_def)

lemma createPolygon_requests:
  "set (fst (snd (createPolygon nm pts r g s))) \<subseteq> {PostPolygon nm pts, GetPolygons}"
proof (cases r)
  case FetchRejected
  then show ?thesis by (simp add: createPolygon_def)
next
  case (FetchResponse ok body)
  then show ?thesis
    by (cases ok) (simp_all add: createPolygon_def fetchPolygons_def)
qed

subsection \<open>The draft after cancel and start\<close>

text \<open>
  C8. Whatever the draft held before, \<^verbatim>\<open>cancelDrawing()\<close> followed by
  \<^verbatim>\<open>startDrawing()\<close> leaves a draft with no points; the same holds for a click on the
  cancel button followed by a click on the button that starts a drawing.
\<close>

theorem cancel_then_start_gives_empty_draft:
  "currentPolygon (startDrawing (cancelDrawing s)) = []
   \<and> currentPolygon (run [CancelClick, DrawNewPolygonClick] s) = []"
  by (simp add: startDrawing_def cancelDrawing_def dispatch_def)

subsection \<open>The collection after a fetch\<close>

text \<open>
  C4. For every outcome of \<^verbatim>\<open>fetchPolygons\<close>: when the response is \<^verbatim>\<open>ok\<close> and carries a
  sequence, the collection becomes exactly that sequence, whatever it was before; when the
  status is not \<^verbatim>\<open>ok\<close>, when the request fails in transport, and when an \<^verbatim>\<open>ok\<close> response
  has a body that does not parse, the collection is what it was before the call.
\<close>

theorem fetchPolygons_replaces_or_keeps_collection:
  "polygons (fst (fetchPolygons (FetchResponse True (Some data)) s)) = data
   \<and> polygons (fst (fetchPolygons (FetchResponse False body) s)) = polygons s
   \<and> polygons (fst (fetchPolygons FetchRejected s)) = polygons s
   \<and> polygons (fst (fetchPolygons (FetchResponse True None) s)) = polygons s"
  by (simp add: fetchPolygons_def fetchPolygons_begin_def)

subsection \<open>Validation before the create call\<close>

text \<open>
  C3. For every name and every draft, \<^verbatim>\<open>handleCreatePolygon\<close> sends a POST only when the
  trimmed name is not empty and the draft has at least three points, and then with
  exactly the trimmed name and the draft; when the trimmed name is empty or the draft has
  fewer than three points it sends no request and returns the state unchanged.
\<close>

theorem create_only_with_name_and_three_points:
  "(PostPolygon nm pts \<in> set (snd (handleCreatePolygon r g s)) \<longrightarrow>
      nm = trim (newPolygonName s) \<and> nm \<noteq> [] \<and> pts = currentPolygon s \<and> 3 \<le> length pts)
   \<and> (trim (newPolygonName s) = [] \<or> length (currentPolygon s) < 3 \<longrightarrow>
        handleCreatePolygon r g s = (s, []))"
  using createPolygon_requests[of "trim (newPolygonName s)" "currentPolygon s" r g s]
  by (auto simp: handleCreatePolygon_def split: prod.splits settled.splits if_splits)

theorem create_only_with_name_and_three_points_witness:
  "PostPolygon ''Zone1'' triangle
     \<in> set (snd (handleCreatePolygon FetchRejected FetchRejected naming_state))
   \<and> trim (newPolygonName naming_state) = ''Zone1''
   \<and> 3 \<le> length triangle
   \<and> handleCreatePolygon FetchRejected FetchRejected (naming_state\<lparr>newPolygonName := ''  ''\<rparr>)
       = (naming_state\<lparr>newPolygonName := ''  ''\<rparr>, [])"
  using create_only_with_name_and_three_points
          [of "''Zone1''" triangle FetchRejected FetchRejected naming_state]
        create_only_with_name_and_three_points
          [of nm pts FetchRejected FetchRejected "naming_state\<lparr>newPolygonName := ''  ''\<rparr>"
           for nm pts]
  by (simp add: handleCreatePolygon_def createPolygon_def createPolygon_begin_def
      naming_state_def triangle_def trim_Zone1 trim_blanks)

subsection \<open>Confirmation before the delete call\<close>

text \<open>
  C7. For every polygon id, \<^verbatim>\<open>handleDeletePolygon\<close> sends the DELETE for that id exactly
  when \<^verbatim>\<open>window.confirm\<close> has returned true; when the user declines, no request is sent
  and the state, the collection with it, is unchanged.
\<close>

theorem delete_sent_iff_confirmed:
  "(DeletePolygon i \<in> set (snd (handleDeletePolygon confirmed i r g s))) = confirmed
   \<and> handleDeletePolygon False i r g s = (s, [])"
  by (auto simp: handleDeletePolygon_def deletePolygon_def split: prod.splits)

subsection \<open>The visibility flag of the save button\<close>

lemma showSaveButton_fetchPolygons_settle:
  "showSaveButton (fetchPolygons_settle g s) = showSaveButton s"
  by (cases "(g, s)" rule: fetchPolygons_settle.cases) simp_all

lemma showSaveButton_fetchPolygons:
  "showSaveButton (fst (fetchPolygons g s)) = showSaveButton s"
  by (simp add: fetchPolygons_def fetchPolygons_begin_def showSaveButton_fetchPolygons_settle)

lemma showSaveButton_createPolygon:
  "showSaveButton (fst (createPolygon nm pts r g s)) = showSaveButton s"
proof (cases r)
  case FetchRejected
  then show ?thesis by (simp add: createPolygon_def createPolygon_begin_def)
next
  case (FetchResponse ok body)
  then show ?thesis
    using showSaveButton_fetchPolygons[of g "createPolygon_begin s"]
    by (cases ok) (auto simp: createPolygon_def createPolygon_begin_def split: prod.splits)
qed

lemma showSaveButton_deletePolygon:
  "showSaveButton (fst (deletePolygon i r g s)) = showSaveButton s"
proof (cases r)
  case FetchRejected
  then show ?thesis by (simp add: deletePolygon_def deletePolygon_begin_def)
next
  case (FetchResponse ok body)
  then show ?thesis
    using showSaveButton_fetchPolygons[of g "deletePolygon_begin s"]
    by (cases ok) (auto simp: deletePolygon_def deletePolygon_begin_def split: prod.splits)
qed

lemma showSaveButton_handleCreatePolygon:
  "showSaveButton (fst (handleCreatePolygon r g s)) = showSaveButton s"
  using showSaveButton_createPolygon[of "trim (newPolygonName s)" "currentPolygon s" r g s]
  by (auto simp: handleCreatePolygon_def split: prod.splits settled.splits)

lemma showSaveButton_handleDeletePolygon:
  "showSaveButton (fst (handleDeletePolygon c i r g s)) = showSaveButton s"
  by (simp add: handleDeletePolygon_def showSaveButton_deletePolygon)

lemma showSaveButton_handleCanvasClick:
  "showSaveButton s \<Longrightarrow> showSaveButton (handleCanvasClick c e s)"
  by (simp add: handleCanvasClick_def Let_def split: option.splits)

lemma showSaveButton_handler:
  "showSaveButton s \<Longrightarrow> showSaveButton (fst (handler e s))"
  by (cases e)
     (simp_all add: showSaveButton_fetchPolygons showSaveButton_handleCreatePolygon
        showSaveButton_handleDeletePolygon showSaveButton_handleCanvasClick
        startDrawing_def cancelDrawing_def)

lemma showSaveButton_dispatch:
  "showSaveButton s \<Longrightarrow> showSaveButton (fst (dispatch e s))"
  by (simp add: dispatch_def showSaveButton_handler)

lemma showSaveButton_run_handlers:
  "showSaveButton s \<Longrightarrow> showSaveButton (run_handlers es s)"
  by (induction es arbitrary: s) (simp_all add: showSaveButton_handler)

lemma showSaveButton_run:
  "showSaveButton s \<Longrightarrow> showSaveButton (run es s)"
  by (induction es arbitrary: s) (simp_all add: showSaveButton_dispatch)

text \<open>
  C10. Once \<^verbatim>\<open>showSaveButton\<close> is true it stays true: through every sequence of events,
  whether the view lets them through or the handlers are called directly (cancel, start,
  a save that succeeds, a save that fails, a delete, a fetch). So after a cancelled
  session, and after the next one has been started, the save button is still rendered, and
  disabled.
\<close>

theorem showSaveButton_stays_true:
  assumes "showSaveButton s"
  shows "showSaveButton (run es s)
         \<and> showSaveButton (run_handlers es s)
         \<and> saveButton_rendered (cancelDrawing s) \<and> saveButton_disabled (cancelDrawing s)
         \<and> saveButton_rendered (startDrawing (cancelDrawing s))
         \<and> saveButton_disabled (startDrawing (cancelDrawing s))"
  using assms showSaveButton_run[of s es] showSaveButton_run_handlers[of s es]
  by (simp add: saveButton_rendered_def saveButton_disabled_def cancelDrawing_def
      startDrawing_def)

theorem showSaveButton_stays_true_witness:
  "showSaveButton naming_state
   \<and> showSaveButton (run [DialogCancelClick, CancelClick, DrawNewPolygonClick] naming_state)
   \<and> currentPolygon (run [DialogCancelClick, CancelClick, DrawNewPolygonClick] naming_state) = []
   \<and> showSaveButton
        (run_handlers [DialogSaveClick FetchRejected FetchRejected, DrawNewPolygonClick]
           naming_state)"
  using showSaveButton_stays_true
          [of naming_state "[DialogCancelClick, CancelClick, DrawNewPolygonClick]"]
        showSaveButton_stays_true
          [of naming_state "[DialogSaveClick FetchRejected FetchRejected, DrawNewPolygonClick]"]
  by (simp add: naming_state_def dispatch_def dialogButton_disabled_def cancelDrawing_def
      startDrawing_def)

subsection \<open>When the save button is shown and when it can be pressed\<close>

lemma clicks_effect:
  "isDrawing s \<Longrightarrow>
     currentPolygon (clicks c es s) = currentPolygon s @ map (click_point c) es
   \<and> showSaveButton (clicks c es s)
       = (showSaveButton s \<or> (es \<noteq> [] \<and> 2 < length (currentPolygon s) + length es))
   \<and> isDrawing (clicks c es s)
   \<and> loading (clicks c es s) = loading s"
proof (induction es arbitrary: s)
  case Nil
  then show ?case by simp
next
  case (Cons e es)
  let ?s1 = "handleCanvasClick (Some c) e s"
  have s1: "isDrawing ?s1" "loading ?s1 = loading s"
    "currentPolygon ?s1 = currentPolygon s @ [click_point c e]"
    "showSaveButton ?s1 = (showSaveButton s \<or> 1 < length (currentPolygon s))"
    using Cons.prems by (simp_all add: handleCanvasClick_def Let_def click_point_def)
  from Cons.IH[OF s1(1)] s1 show ?case
    by (cases es) auto
qed

text \<open>
  C5, as the code has it. In a session that starts with an empty draft and the flag not
  yet set, after any sequence of accepted clicks the save button is rendered exactly when
  the draft has more than two points: the handler tests \<^verbatim>\<open>currentPolygon.length > 1\<close>
  on the draft as it was before the click. The button is disabled unless the draft has at
  least three points and \<^verbatim>\<open>loading\<close> is false.
\<close>

theorem save_button_after_clicks:
  assumes "isDrawing s" and "\<not> showSaveButton s" and "currentPolygon s = []"
  shows "length (currentPolygon (clicks c es s)) = length es
         \<and> saveButton_rendered (clicks c es s) = (2 < length (currentPolygon (clicks c es s)))
         \<and> saveButton_disabled (clicks c es s)
             = (\<not> (3 \<le> length (currentPolygon (clicks c es s)) \<and> \<not> loading (clicks c es s)))"
  using assms clicks_effect[of s c es]
  by (auto simp: saveButton_rendered_def saveButton_disabled_def)

theorem save_button_after_clicks_witness:
  "isDrawing (startDrawing initial_state)
   \<and> \<not> showSaveButton (startDrawing initial_state)
   \<and> currentPolygon (startDrawing initial_state) = []
   \<and> saveButton_rendered
        (clicks example_canvas [click_at 8 8, click_at 18 8, click_at 18 18]
           (startDrawing initial_state))
   \<and> \<not> saveButton_disabled
        (clicks example_canvas [click_at 8 8, click_at 18 8, click_at 18 18]
           (startDrawing initial_state))"
  using save_button_after_clicks
          [of "startDrawing initial_state" example_canvas
              "[click_at 8 8, click_at 18 8, click_at 18 18]"]
  by (simp add: startDrawing_def initial_state_def handleCanvasClick_def)

text \<open>The claim as the specification words it, visible as soon as the draft has more than
  one point, fails after two clicks of the first session: the draft has two points and
  the button is not rendered.\<close>

theorem save_button_two_points_counterexample:
  "1 < length (currentPolygon
         (clicks example_canvas [click_at 8 8, click_at 18 8] (startDrawing initial_state)))
   \<and> \<not> saveButton_rendered
         (clicks example_canvas [click_at 8 8, click_at 18 8] (startDrawing initial_state))"
  by (simp add: handleCanvasClick_def startDrawing_def initial_state_def
      saveButton_rendered_def example_canvas_def click_at_def)

subsection \<open>What \<^verbatim>\<open>loading\<close> gates\<close>

text \<open>
  C2, as the code has it. While \<^verbatim>\<open>loading\<close> is true the save button and the two buttons
  of the naming dialog are disabled: opening the dialog through the save button,
  confirming the save and cancelling the dialog through its buttons change no state and
  send no request.
\<close>

theorem loading_disables_save_actions:
  assumes "loading s"
  shows "dispatch SavePolygonClick s = (s, [])
         \<and> dispatch (DialogSaveClick r g) s = (s, [])
         \<and> dispatch DialogCancelClick s = (s, [])"
  using assms by (simp add: dispatch_def saveButton_disabled_def dialogButton_disabled_def)

theorem loading_disables_save_actions_witness:
  "loading (createPolygon_begin naming_state)
   \<and> dispatch SavePolygonClick (createPolygon_begin naming_state)
       = (createPolygon_begin naming_state, [])
   \<and> dispatch (DialogSaveClick FetchRejected FetchRejected) (createPolygon_begin naming_state)
       = (createPolygon_begin naming_state, [])
   \<and> snd (dispatch (DialogSaveClick FetchRejected FetchRejected) naming_state)
       = [PostPolygon ''Zone1'' triangle]"
  using loading_disables_save_actions
          [of "createPolygon_begin naming_state" FetchRejected FetchRejected]
  by (simp add: createPolygon_begin_def naming_state_def dispatch_def dialogButton_disabled_def
      handleCreatePolygon_def createPolygon_def trim_Zone1 triangle_def)

text \<open>The other actions are not gated. While the first fetch is in flight a click on the
  button that starts a drawing changes the state, and a canvas click in a drawing session
  appends a point; while a delete is in flight a confirmed click on a delete icon sends
  another DELETE.\<close>

theorem loading_gate_counterexample:
  "loading (fetchPolygons_begin initial_state)
   \<and> fst (dispatch DrawNewPolygonClick (fetchPolygons_begin initial_state))
       \<noteq> fetchPolygons_begin initial_state
   \<and> loading (fetchPolygons_begin (startDrawing initial_state))
   \<and> currentPolygon
        (fst (dispatch (CanvasClick (Some example_canvas) (click_at 8 8))
               (fetchPolygons_begin (startDrawing initial_state))))
       = [[0, 0]]
   \<and> loading (deletePolygon_begin (initial_state\<lparr>polygons := [zone1]\<rparr>))
   \<and> snd (dispatch (DeleteIconClick 1 True FetchRejected FetchRejected)
             (deletePolygon_begin (initial_state\<lparr>polygons := [zone1]\<rparr>)))
       = [DeletePolygon 1]"
  by (simp add: dispatch_def fetchPolygons_begin_def deletePolygon_begin_def
      initial_state_def startDrawing_def handleCanvasClick_def example_canvas_def
      click_at_def zone1_def handleDeletePolygon_def deletePolygon_def)

subsection \<open>The renderer on the saved collection\<close>

lemma and_then_calls: "and_then (calls cs) b = (cs @ fst b, snd b)"
  by (simp add: and_then_def calls_def)


lemma and_then_TypeError: "and_then (cs, TypeError) b = (cs, TypeError)"
  by (simp add: and_then_def)




























subsection \<open>The outcomes of confirming a save\<close>

text \<open>What \<^verbatim>\<open>handleCreatePolygon\<close> leaves behind, for a name and a draft that pass its
  guard, by the answer to the POST: a transport failure and a JSON body without the
  duplicate-name signal end in the reset; a JSON body with the signal keeps the draft, the
  name, the drawing flag and the dialog; a body that does not parse keeps them too,
  whatever the status.\<close>

lemma fetchPolygons_settle_loading:
  "fetchPolygons_settle g (s\<lparr>loading := b\<rparr>) = fetchPolygons_settle g s"
  by (cases "(g, s)" rule: fetchPolygons_settle.cases) simp_all

lemma draft_fields_fetchPolygons_settle:
  "currentPolygon (fetchPolygons_settle g s) = currentPolygon s
   \<and> newPolygonName (fetchPolygons_settle g s) = newPolygonName s
   \<and> isDrawing (fetchPolygons_settle g s) = isDrawing s
   \<and> showNameDialog (fetchPolygons_settle g s) = showNameDialog s"
  by (cases "(g, s)" rule: fetchPolygons_settle.cases) simp_all

lemma handleCreatePolygon_outcomes:
  assumes "trim (newPolygonName s) \<noteq> []" and "2 < length (currentPolygon s)"
  shows "draft_reset (fst (handleCreatePolygon FetchRejected g s))"
    and "duplicate_name_signal j \<Longrightarrow>
         draft_kept s (fst (handleCreatePolygon (FetchResponse ok (Some j)) g s))"
    and "\<not> duplicate_name_signal j \<Longrightarrow>
         draft_reset (fst (handleCreatePolygon (FetchResponse ok (Some j)) g s))"
    and "draft_kept s (fst (handleCreatePolygon (FetchResponse ok None) g s))"
  using assms draft_fields_fetchPolygons_settle[of g s]
  by (simp_all add: handleCreatePolygon_def createPolygon_def createPolygon_begin_def
      fetchPolygons_def fetchPolygons_begin_def fetchPolygons_settle_loading
      duplicate_name_signal_def draft_kept_def draft_reset_def)

text \<open>
  C1, at an input where the code departs from it. The POST is answered with a status
  that is not \<^verbatim>\<open>ok\<close> and a body that is not JSON (an HTML error page), or with an
  \<^verbatim>\<open>ok\<close> status and such a body. \<^verbatim>\<open>createPolygon\<close> ends in
  \<^verbatim>\<open>return response.json()\<close> without \<^verbatim>\<open>await\<close>, so the rejection passes its
  \<^verbatim>\<open>catch\<close>, the \<^verbatim>\<open>await\<close> in \<^verbatim>\<open>handleCreatePolygon\<close> throws, and the reset is
  skipped: the draft, the name, the drawing flag and the open dialog stay as they were,
  although no duplicate-name signal was received.
\<close>

theorem save_with_unparsable_response_keeps_draft:
  "handleCreatePolygon (FetchResponse False None) g naming_state
     = (naming_state, [PostPolygon ''Zone1'' triangle])
   \<and> handleCreatePolygon (FetchResponse True None) (FetchResponse True (Some [zone1]))
       naming_state
     = (naming_state\<lparr>polygons := [zone1]\<rparr>, [PostPolygon ''Zone1'' triangle, GetPolygons])
   \<and> \<not> draft_reset (fst (handleCreatePolygon (FetchResponse False None) g naming_state))"
  by (simp add: handleCreatePolygon_def createPolygon_def createPolygon_begin_def
      fetchPolygons_def fetchPolygons_begin_def naming_state_def trim_Zone1 triangle_def
      draft_reset_def)

subsection \<open>The older copy\<close>

lemma legacy_fetchPolygons_collection:
  "polygons (fst (legacy_fetchPolygons (FetchResponse True (Some data)) s)) = data
   \<and> polygons (fst (legacy_fetchPolygons (FetchResponse False body) s)) = polygons s
   \<and> polygons (fst (legacy_fetchPolygons FetchRejected s)) = polygons s
   \<and> polygons (fst (legacy_fetchPolygons (FetchResponse True None) s)) = polygons s"
  by simp

lemma legacy_handleSavePolygon_always_resets:
  assumes "trim (newPolygonName s) \<noteq> []" and "2 < length (currentPolygon s)"
  shows "currentPolygon (fst (legacy_handleSavePolygon r g s)) = []
         \<and> \<not> isDrawing (fst (legacy_handleSavePolygon r g s))
         \<and> newPolygonName (fst (legacy_handleSavePolygon r g s)) = []
         \<and> \<not> showNameDialog (fst (legacy_handleSavePolygon r g s))"
  using assms by (simp add: legacy_handleSavePolygon_def split: prod.splits)

lemma legacy_handleDeletePolygon_always_sends:
  "DeletePolygon i \<in> set (snd (legacy_handleDeletePolygon i r g s))"
  by (cases "(i, r, g, s)" rule: legacy_deletePolygon.cases)
     (simp_all add: legacy_handleDeletePolygon_def split: prod.splits)

lemma legacy_handleSavePolygon_guard:
  "trim (newPolygonName s) = [] \<or> length (currentPolygon s) < 3
     \<Longrightarrow> legacy_handleSavePolygon r g s = (s, [])"
  by (auto simp: legacy_handleSavePolygon_def)


end
